theory Spec2Isabelle
  imports Complex_Main
begin

section \<open>JavaScript values\<close>

text \<open>
  Numbers.  A JavaScript number is modelled as \<open>NaN\<close>, an infinity (\<open>Infty True\<close> is
  \<open>-Infinity\<close>) or the exact rational a finite double stands for.  The rounding of IEEE
  doubles, their overflow to an infinity and the sign of zero are not modelled.
\<close>

datatype jsnum = NaN | Infty bool | Num rat

fun jmul :: "jsnum \<Rightarrow> jsnum \<Rightarrow> jsnum" where
  "jmul NaN _ = NaN"
| "jmul _ NaN = NaN"
| "jmul (Num a) (Num b) = Num (a * b)"
| "jmul (Infty s) (Num b) = (if b = 0 then NaN else Infty (s \<noteq> (b < 0)))"
| "jmul (Num a) (Infty s) = (if a = 0 then NaN else Infty (s \<noteq> (a < 0)))"
| "jmul (Infty s) (Infty t) = Infty (s \<noteq> t)"

fun jsub :: "jsnum \<Rightarrow> jsnum \<Rightarrow> jsnum" where
  "jsub NaN _ = NaN"
| "jsub _ NaN = NaN"
| "jsub (Num a) (Num b) = Num (a - b)"
| "jsub (Infty s) (Num b) = Infty s"
| "jsub (Num a) (Infty s) = Infty (\<not> s)"
| "jsub (Infty s) (Infty t) = (if s = t then NaN else Infty s)"

fun jdiv :: "jsnum \<Rightarrow> jsnum \<Rightarrow> jsnum" where
  "jdiv NaN _ = NaN"
| "jdiv _ NaN = NaN"
| "jdiv (Num a) (Num b) =
     (if b = 0 then (if a = 0 then NaN else Infty (a < 0)) else Num (a / b))"
| "jdiv (Infty s) (Num b) = Infty (s \<noteq> (b < 0))"
| "jdiv (Num a) (Infty s) = Num 0"
| "jdiv (Infty s) (Infty t) = NaN"

text \<open>\<open>x !== 0\<close> on numbers: \<open>NaN\<close> and the infinities differ from \<open>0\<close>.\<close>

definition neq0 :: "jsnum \<Rightarrow> bool" where
  "neq0 x = (x \<noteq> Num 0)"

text \<open>Dates are kept as the expression that built them: \<open>new Date(s)\<close> or \<open>new Date()\<close>.\<close>

datatype jsdate = DateOf string | DateNow

text \<open>
  Values.  An object literal \<open>{ k1: v1, ... }\<close> is the list of its keys and values in
  the order the source writes them; a key can be present with the value \<open>undefined\<close>.
\<close>

datatype jsval =
    JUndefined
  | JNull
  | JBool bool
  | JNum jsnum
  | JStr string
  | JDate jsdate
  | JArr "jsval list"
  | JObj "(string \<times> jsval) list"

text \<open>\<open>has_key v k\<close>: the object \<open>v\<close> has an own property \<open>k\<close>.\<close>

fun has_key :: "jsval \<Rightarrow> string \<Rightarrow> bool" where
  "has_key (JObj kvs) k = (map_of kvs k \<noteq> None)"
| "has_key _ k = False"

text \<open>\<open>getProp v k\<close> is the property read \<open>v.k\<close> on an object: \<open>undefined\<close> for a missing key.\<close>

fun getProp :: "jsval \<Rightarrow> string \<Rightarrow> jsval" where
  "getProp (JObj kvs) k = (case map_of kvs k of None \<Rightarrow> JUndefined | Some v \<Rightarrow> v)"
| "getProp _ k = JUndefined"

subsection \<open>parseFloat\<close>

text \<open>
  \<open>parseFloat\<close> of ECMAScript: leading white space is skipped, then the longest prefix
  that is a \<open>StrDecimalLiteral\<close> is read (a sign, then \<open>Infinity\<close> or digits with an
  optional fraction and an optional exponent); \<open>NaN\<close> when there is no such prefix.
  Strings are byte strings here, so only the ASCII white space characters are skipped.
\<close>

fun indexIn :: "'a \<Rightarrow> 'a list \<Rightarrow> nat option" where
  "indexIn x [] = None"
| "indexIn x (y # ys) = (if x = y then Some 0 else map_option Suc (indexIn x ys))"

definition digitValue :: "char \<Rightarrow> nat option" where
  "digitValue c = indexIn c ''0123456789''"

definition isDigit :: "char \<Rightarrow> bool" where
  "isDigit c = (digitValue c \<noteq> None)"

definition isWhiteSpace :: "char \<Rightarrow> bool" where
  "isWhiteSpace c =
     (c = CHR '' '' \<or> c = CHR 0x09 \<or> c = CHR 0x0A \<or> c = CHR 0x0B \<or> c = CHR 0x0C \<or> c = CHR 0x0D)"

text \<open>The number written by a string of digits, most significant first.\<close>

fun digitsValue :: "nat \<Rightarrow> string \<Rightarrow> nat" where
  "digitsValue acc [] = acc"
| "digitsValue acc (c # cs) =
     digitsValue (10 * acc + (case digitValue c of None \<Rightarrow> 0 | Some d \<Rightarrow> d)) cs"

text \<open>
  The exponent part at the head of the rest of the string: \<open>e\<close> or \<open>E\<close>, an optional
  sign and at least one digit; otherwise there is no exponent and the literal ends.
\<close>

definition exponentPart :: "string \<Rightarrow> int" where
  "exponentPart s =
     (case s of
        [] \<Rightarrow> 0
      | c # r \<Rightarrow>
          if c = CHR ''e'' \<or> c = CHR ''E'' then
            (let neg = (r \<noteq> [] \<and> hd r = CHR ''-'');
                 r' = (if r \<noteq> [] \<and> (hd r = CHR ''-'' \<or> hd r = CHR ''+'') then tl r else r);
                 ds = takeWhile isDigit r'
             in if ds = [] then 0
                else if neg then - int (digitsValue 0 ds) else int (digitsValue 0 ds))
          else 0)"

definition scale10 :: "rat \<Rightarrow> int \<Rightarrow> rat" where
  "scale10 x e = (if e < 0 then x / 10 ^ nat (- e) else x * 10 ^ nat e)"

definition parseUnsigned :: "string \<Rightarrow> jsnum" where
  "parseUnsigned s =
     (if take 8 s = ''Infinity'' then Infty False
      else
        let ip = takeWhile isDigit s;
            r1 = dropWhile isDigit s;
            hasDot = (r1 \<noteq> [] \<and> hd r1 = CHR ''.'');
            fp = (if hasDot then takeWhile isDigit (tl r1) else []);
            r2 = (if hasDot then dropWhile isDigit (tl r1) else r1)
        in if ip = [] \<and> fp = [] then NaN
           else Num (scale10
                  (of_nat (digitsValue 0 ip) + of_nat (digitsValue 0 fp) / 10 ^ length fp)
                  (exponentPart r2)))"

definition jneg :: "jsnum \<Rightarrow> jsnum" where
  "jneg x = (case x of NaN \<Rightarrow> NaN | Infty s \<Rightarrow> Infty (\<not> s) | Num a \<Rightarrow> Num (- a))"

definition parseFloat :: "string \<Rightarrow> jsnum" where
  "parseFloat str =
     (let s = dropWhile isWhiteSpace str
      in case s of
           [] \<Rightarrow> NaN
         | c # r \<Rightarrow>
             if c = CHR ''-'' then jneg (parseUnsigned r)
             else if c = CHR ''+'' then parseUnsigned r
             else parseUnsigned s)"

text \<open>
  A string-typed field of an upstream record can be missing at run time (\<open>undefined\<close> or
  \<open>null\<close>): it is a \<open>string option\<close>.  \<open>orElse x d\<close> is \<open>x || d\<close>: the default for a
  missing or empty string.  \<open>parseFloatOpt x\<close> is \<open>parseFloat(x)\<close> with no default: a
  missing value is converted to the string \<open>undefined\<close> or \<open>null\<close> first.
\<close>

definition orElse :: "string option \<Rightarrow> string \<Rightarrow> string" where
  "orElse x d = (case x of None \<Rightarrow> d | Some s \<Rightarrow> if s = [] then d else s)"

definition parseFloatOpt :: "string option \<Rightarrow> jsnum" where
  "parseFloatOpt x = (case x of None \<Rightarrow> parseFloat ''undefined'' | Some s \<Rightarrow> parseFloat s)"

section \<open>Upstream records\<close>

text \<open>
  The brokerage's records, with the fields the mapper reads.  A decimal that the mapper
  parses is a \<open>string option\<close>, \<open>None\<close> when the upstream left it out.
\<close>

record CashBalances =
  cb_cash :: "string option"
  cb_unclearedDeposits :: "string option"
  cb_unsettledFunds :: "string option"

record RobinhoodAccount =
  acc_url :: string
  acc_buyingPower :: "string option"
  acc_cashBalances :: "CashBalances option"
  acc_accountNumber :: string
  acc_type :: string
  acc_created :: string
  acc_updated :: string

record RobinhoodPortfolio =
  pf_market_value :: "string option"
  pf_equity :: "string option"
  pf_lastCoreEquity :: "string option"

record RobinhoodPosition =
  pos_url :: string
  pos_instrument :: string
  pos_averageBuyPrice :: "string option"
  pos_quantity :: "string option"
  pos_updatedAt :: string

record RobinhoodInstrument =
  ins_id :: string
  ins_url :: string
  ins_market :: string
  ins_name :: string
  ins_symbol :: string
  ins_type :: string

record RobinhoodQuote =
  q_askPrice :: "string option"
  q_askSize :: jsnum
  q_bidPrice :: "string option"
  q_bidSize :: jsnum
  q_lastTradePrice :: "string option"
  q_previousClose :: "string option"
  q_symbol :: string
  q_tradingHalted :: bool
  q_updatedAt :: string

record RobinhoodOrder =
  ord_id :: string
  ord_url :: string
  ord_instrument :: string
  ord_averagePrice :: "string option"
  ord_fees :: "string option"
  ord_state :: string
  ord_side :: string
  ord_price :: "string option"
  ord_quantity :: "string option"
  ord_created :: string




record RobinhoodDividend =
  div_id :: string
  div_instrument :: string
  div_amount :: "string option"
  div_withholding :: "string option"
  div_recordDate :: string
  div_payableDate :: string
  div_state :: string

section \<open>PortfolioMapper\<close>

text \<open>
  A thrown value is a JavaScript object as well: \<open>mkError n m\<close> is an error of class
  \<open>n\<close> with the message \<open>m\<close>.  A function that can throw returns \<open>jsval + 'a\<close>,
  with \<open>Inl\<close> the value thrown.
\<close>

definition mkError :: "string \<Rightarrow> string \<Rightarrow> jsval" where
  "mkError name msg = JObj [(''name'', JStr name), (''message'', JStr msg)]"

text \<open>\<open>account.cashBalances?.f\<close>: \<open>undefined\<close> when the account has no cash balances.\<close>

definition cashField :: "RobinhoodAccount \<Rightarrow> (CashBalances \<Rightarrow> string option) \<Rightarrow> string option" where
  "cashField account f = (case acc_cashBalances account of None \<Rightarrow> None | Some cb \<Rightarrow> f cb)"


definition mapPortfolio :: "RobinhoodAccount \<Rightarrow> RobinhoodPortfolio \<Rightarrow> jsval list \<Rightarrow> jsval" where
  "mapPortfolio account portfolio positions =
     (let totalValue = parseFloat (orElse (pf_market_value portfolio) ''0'');
          equity = parseFloat (orElse (pf_equity portfolio) ''0'');
          previousEquity = parseFloat (orElse (pf_lastCoreEquity portfolio) ''0'');
          dayChange = jsub equity previousEquity;
          dayChangePercent =
            (if neq0 previousEquity then jmul (jdiv dayChange previousEquity) (Num 100)
             else Num 0)
      in JObj [
        (''id'', JStr (acc_accountNumber account)),
        (''accountNumber'', JStr (acc_accountNumber account)),
        (''accountType'', JStr (if acc_type account = ''margin'' then ''margin'' else ''cash'')),
        (''totalValue'', JNum totalValue),
        (''cashBalance'', JNum (parseFloat (orElse (cashField account cb_cash) ''0''))),
        (''buyingPower'', JNum (parseFloat (orElse (acc_buyingPower account) ''0''))),
        (''dayChange'', JNum dayChange),
        (''dayChangePercent'', JNum dayChangePercent),
        (''totalGainLoss'', JNum (Num 0)),
        (''totalGainLossPercent'', JNum (Num 0)),
        (''positions'', JArr positions),
        (''metadata'', JObj [
           (''source'', JStr ''robinhood''),
           (''lastUpdated'', JDate DateNow),
           (''currency'', JStr ''USD'')])])"

text \<open>
  \<open>mapPosition\<close> declares its instrument as required and reads \<open>instrument.symbol\<close>
  with no guard: called without an instrument it throws a \<open>TypeError\<close>.  The quote is
  optional (\<open>quote?.lastTradePrice\<close>).
\<close>

definition quoteField :: "RobinhoodQuote option \<Rightarrow> (RobinhoodQuote \<Rightarrow> string option) \<Rightarrow> string option" where
  "quoteField quote f = (case quote of None \<Rightarrow> None | Some q \<Rightarrow> f q)"

definition mapPosition ::
  "RobinhoodPosition \<Rightarrow> RobinhoodInstrument option \<Rightarrow> RobinhoodQuote option \<Rightarrow> jsval + jsval" where
  "mapPosition position instrument quote =
     (let quantity = parseFloat (orElse (pos_quantity position) ''0'');
          averageCost = parseFloat (orElse (pos_averageBuyPrice position) ''0'');
          currentPrice = parseFloat (orElse (quoteField quote q_lastTradePrice) ''0'');
          marketValue = jmul quantity currentPrice;
          totalCost = jmul quantity averageCost;
          totalGainLoss = jsub marketValue totalCost;
          totalGainLossPercent =
            (if neq0 totalCost then jmul (jdiv totalGainLoss totalCost) (Num 100) else Num 0);
          previousClose = parseFloat (orElse (quoteField quote q_previousClose) ''0'');
          dayChange = jsub currentPrice previousClose;
          dayChangePercent =
            (if neq0 previousClose then jmul (jdiv dayChange previousClose) (Num 100) else Num 0)
      in case instrument of
           None \<Rightarrow> Inl (mkError ''TypeError'' ''Cannot read properties of undefined'')
         | Some ins \<Rightarrow> Inr (JObj [
             (''id'', JStr (pos_url position)),
             (''symbol'', JStr (ins_symbol ins)),
             (''name'', JStr (ins_name ins)),
             (''type'', JStr (if ins_type ins = ''stock'' then ''stock'' else ''etf'')),
             (''quantity'', JNum quantity),
             (''averageCost'', JNum averageCost),
             (''currentPrice'', JNum currentPrice),
             (''marketValue'', JNum marketValue),
             (''dayChange'', JNum (jmul dayChange quantity)),
             (''dayChangePercent'', JNum dayChangePercent),
             (''totalGainLoss'', JNum totalGainLoss),
             (''totalGainLossPercent'', JNum totalGainLossPercent),
             (''currency'', JStr ''USD''),
             (''exchange'', JStr (ins_market ins)),
             (''metadata'', JObj [
                (''instrumentId'', JStr (ins_id ins)),
                (''instrumentUrl'', JStr (ins_url ins)),
                (''positionUrl'', JStr (pos_url position)),
                (''lastUpdated'', JDate (DateOf (pos_updatedAt position)))])]))"


text \<open>\<open>instrument?.f\<close>: \<open>undefined\<close> when no instrument is given.\<close>

definition instrumentField :: "RobinhoodInstrument option \<Rightarrow> (RobinhoodInstrument \<Rightarrow> string) \<Rightarrow> jsval" where
  "instrumentField instrument f = (case instrument of None \<Rightarrow> JUndefined | Some i \<Rightarrow> JStr (f i))"

definition mapQuote :: "RobinhoodQuote \<Rightarrow> RobinhoodInstrument option \<Rightarrow> jsval" where
  "mapQuote quote instrument =
     (let price = parseFloat (orElse (q_lastTradePrice quote) ''0'');
          previousClose = parseFloat (orElse (q_previousClose quote) ''0'');
          change = jsub price previousClose;
          changePercent =
            (if neq0 previousClose then jmul (jdiv change previousClose) (Num 100) else Num 0)
      in JObj [
        (''symbol'', JStr (q_symbol quote)),
        (''name'', instrumentField instrument ins_name),
        (''price'', JNum price),
        (''previousClose'', JNum previousClose),
        (''change'', JNum change),
        (''changePercent'', JNum changePercent),
        (''bid'', JNum (parseFloat (orElse (q_bidPrice quote) ''0''))),
        (''ask'', JNum (parseFloat (orElse (q_askPrice quote) ''0''))),
        (''bidSize'', JNum (q_bidSize quote)),
        (''askSize'', JNum (q_askSize quote)),
        (''lastUpdated'', JDate (DateOf (q_updatedAt quote))),
        (''currency'', JStr ''USD''),
        (''exchange'', instrumentField instrument ins_market),
        (''tradingHalted'', JBool (q_tradingHalted quote))])"

definition mapOrderStatus :: "string \<Rightarrow> string" where
  "mapOrderStatus state =
     (if state = ''filled'' \<or> state = ''executed'' then ''completed''
      else if state = ''cancelled'' \<or> state = ''canceled'' then ''cancelled''
      else if state = ''failed'' \<or> state = ''rejected'' then ''failed''
      else if state = ''pending'' \<or> state = ''queued'' \<or> state = ''confirmed''
              \<or> state = ''partially_filled'' then ''pending''
      else ''pending'')"

definition mapTransaction :: "RobinhoodOrder \<Rightarrow> RobinhoodInstrument option \<Rightarrow> jsval" where
  "mapTransaction order instrument =
     (let type = (if ord_side order = ''buy'' then ''buy'' else ''sell'');
          quantity = parseFloat (orElse (ord_quantity order) ''0'');
          price = parseFloat (orElse (ord_averagePrice order) (orElse (ord_price order) ''0''));
          amount = jmul quantity price
      in JObj [
        (''id'', JStr (ord_id order)),
        (''type'', JStr type),
        (''symbol'', instrumentField instrument ins_symbol),
        (''name'', instrumentField instrument ins_name),
        (''quantity'', JNum quantity),
        (''price'', JNum price),
        (''amount'', JNum amount),
        (''fee'', JNum (parseFloat (orElse (ord_fees order) ''0''))),
        (''date'', JDate (DateOf (ord_created order))),
        (''status'', JStr (mapOrderStatus (ord_state order))),
        (''currency'', JStr ''USD''),
        (''metadata'', JObj [
           (''orderId'', JStr (ord_id order)),
           (''orderUrl'', JStr (ord_url order)),
           (''source'', JStr ''robinhood'')])])"





text \<open>
  In \<open>mapDividend\<close> the symbol is \<open>instrument?.symbol || ''\<close>: the empty string when
  there is no instrument or its symbol is empty.
\<close>

definition mapDividend :: "RobinhoodDividend \<Rightarrow> RobinhoodInstrument option \<Rightarrow> jsval" where
  "mapDividend dividend instrument = JObj [
     (''id'', JStr (div_id dividend)),
     (''symbol'', JStr (case instrument of None \<Rightarrow> [] | Some i \<Rightarrow> ins_symbol i)),
     (''amount'', JNum (parseFloatOpt (div_amount dividend))),
     (''paymentDate'', JDate (DateOf (div_payableDate dividend))),
     (''exDividendDate'', JDate (DateOf (div_recordDate dividend))),
     (''recordDate'', JDate (DateOf (div_recordDate dividend))),
     (''status'', JStr (if div_state dividend = ''paid'' then ''paid'' else ''pending'')),
     (''currency'', JStr ''USD''),
     (''metadata'', JObj [
        (''source'', JStr ''robinhood''),
        (''dividendId'', JStr (div_id dividend)),
        (''withholding'', JNum (parseFloat (orElse (div_withholding dividend) ''0'')))])]"
section \<open>RobinhoodClient\<close>

text \<open>
  Truthiness of a value, as \<open>if (v)\<close>, \<open>!!v\<close> and \<open>v || d\<close> test it.
\<close>

fun truthy :: "jsval \<Rightarrow> bool" where
  "truthy JUndefined = False"
| "truthy JNull = False"
| "truthy (JBool b) = b"
| "truthy (JNum n) = (n \<noteq> NaN \<and> n \<noteq> Num 0)"
| "truthy (JStr s) = (s \<noteq> [])"
| "truthy (JDate d) = True"
| "truthy (JArr xs) = True"
| "truthy (JObj kvs) = True"

text \<open>
  A request configuration of the HTTP library: method, URL, body, the access token of
  its \<open>Authorization: Bearer\<close> header when it has one, and the \<open>_retry\<close> mark that the
  response interceptor sets.
\<close>

record request =
  req_method :: string
  req_url :: jsval
  req_data :: jsval
  req_authorization :: "jsval option"
  req_retry :: bool

text \<open>
  The upstream is the sequence of its answers to the requests still to come, in the
  order the requests are sent: a status code with a decoded body, or no answer at all (a
  network error or a timeout).  When the sequence is used up, no request is answered
  any more.  The client state is the token set it holds (\<open>undefined\<close> before any
  authentication), the configured OAuth client identifier, and the requests sent so
  far, oldest first, as they left the request interceptor.
\<close>

datatype upstream_response = Response nat jsval | NoResponse

record client =
  authTokens :: jsval
  config_clientId :: "string option"
  sent :: "request list"

text \<open>
  The error the HTTP library rejects with.  With an answer of the upstream it carries
  \<open>response.status\<close> and \<open>response.data\<close>; the status digits at the end of the
  library's message are left out.
\<close>

definition axiosError :: "string \<Rightarrow> (nat \<times> jsval) option \<Rightarrow> jsval" where
  "axiosError msg resp =
     JObj ([(''name'', JStr ''AxiosError''), (''message'', JStr msg), (''isAxiosError'', JBool True)]
           @ (case resp of
                None \<Rightarrow> []
              | Some (status, body) \<Rightarrow>
                  [(''response'', JObj [(''status'', JNum (Num (of_nat status))), (''data'', body)])]))"

text \<open>
  The library resolves a request answered with a status from 200 to 299 and rejects any
  other answer, and a missing one.
\<close>

definition settle :: "upstream_response \<Rightarrow> jsval + jsval" where
  "settle r =
     (case r of
        NoResponse \<Rightarrow> Inl (axiosError ''Network Error'' None)
      | Response status body \<Rightarrow>
          if 200 \<le> status \<and> status < 300
          then Inr (JObj [(''data'', body), (''status'', JNum (Num (of_nat status)))])
          else Inl (axiosError ''Request failed with status code'' (Some (status, body))))"

text \<open>The request interceptor of \<open>setupInterceptors\<close>.\<close>

definition requestInterceptor :: "client \<Rightarrow> request \<Rightarrow> request" where
  "requestInterceptor c config =
     (if truthy (getProp (authTokens c) ''accessToken'')
      then config\<lparr>req_authorization := Some (getProp (authTokens c) ''accessToken'')\<rparr>
      else config)"

text \<open>The body of the token refresh request in \<open>refreshAccessToken\<close>.\<close>

definition refreshRequest :: "client \<Rightarrow> request" where
  "refreshRequest c =
     \<lparr> req_method = ''post'',
       req_url = JStr ''/oauth/token/'',
       req_data = JObj [
         (''grant_type'', JStr ''refresh_token''),
         (''refresh_token'', getProp (authTokens c) ''refreshToken''),
         (''scope'', JStr ''internal''),
         (''client_id'', JStr (orElse (config_clientId c) ''c82SH0WZOsabOXGP2sxqcj34FxkvfnWRZBKlBjFS''))],
       req_authorization = None,
       req_retry = False \<rparr>"

text \<open>
  \<open>axios_request config rs c\<close> is one call \<open>this.axios(config)\<close> in the client state
  \<open>c\<close> against the upstream answers \<open>rs\<close>: the request interceptor, the exchange
  with the upstream, and the response interceptor of \<open>setupInterceptors\<close>.  It returns
  the response or the error, the answers left and the new client state.
  \<open>refreshAccessToken\<close> sends its request through the same instance, hence through the
  same interceptors.
\<close>

function axios_request ::
    "request \<Rightarrow> upstream_response list \<Rightarrow> client \<Rightarrow> (jsval + jsval) \<times> upstream_response list \<times> client"
  and refreshAccessToken ::
    "upstream_response list \<Rightarrow> client \<Rightarrow> (jsval + jsval) \<times> upstream_response list \<times> client"
where
  "axios_request config [] c =
     (let originalRequest = requestInterceptor c config
      in (Inl (axiosError ''Network Error'' None), [], c\<lparr>sent := sent c @ [originalRequest]\<rparr>))"
| "axios_request config (r # rs) c =
     (let originalRequest = requestInterceptor c config;
          c1 = c\<lparr>sent := sent c @ [originalRequest]\<rparr>
      in case settle r of
           Inr response \<Rightarrow> (Inr response, rs, c1)
         | Inl error \<Rightarrow>
             if getProp (getProp error ''response'') ''status'' = JNum (Num 401)
                \<and> \<not> req_retry originalRequest
             then
               (if truthy (getProp (authTokens c1) ''refreshToken'')
                then
                  (case refreshAccessToken rs c1 of
                     (Inr tokens, rs2, c2) \<Rightarrow>
                       axios_request (originalRequest\<lparr>req_retry := True\<rparr>) rs2 c2
                   | (Inl refreshError, rs2, c2) \<Rightarrow>
                       (Inl refreshError, rs2, c2\<lparr>authTokens := JUndefined\<rparr>))
                else (Inl error, rs, c1))
             else (Inl error, rs, c1))"
| "refreshAccessToken rs c =
     (if \<not> truthy (getProp (authTokens c) ''refreshToken'')
      then (Inl (mkError ''Error'' ''No refresh token available''), rs, c)
      else
        (case axios_request (refreshRequest c) rs c of
           (Inr response, rs', c') \<Rightarrow>
             (Inr (getProp response ''data''), rs', c'\<lparr>authTokens := getProp response ''data''\<rparr>)
         | (Inl error, rs', c') \<Rightarrow> (Inl error, rs', c')))"
  by pat_completeness auto

text \<open>
  Every call consumes the answers it gets and no more: the answers left are never more
  than before.  This is what makes the recursion through the retry terminate.
\<close>

lemma request_answers_left:
  "axios_request_refreshAccessToken_dom (Inl (config, rs, c)) \<Longrightarrow>
     length (fst (snd (axios_request config rs c))) \<le> length rs"
  "axios_request_refreshAccessToken_dom (Inr (rs, c)) \<Longrightarrow>
     length (fst (snd (refreshAccessToken rs c))) \<le> length rs"
proof (induction config rs c and rs c rule: axios_request_refreshAccessToken.pinduct)
  case (1 config c)
  then show ?case by (simp add: axios_request.psimps Let_def)
next
  case (2 config r rs c)
  define req0 where "req0 = requestInterceptor c config"
  define c1 where "c1 = c\<lparr>sent := sent c @ [req0]\<rparr>"
  note eq = axios_request.psimps(2) [OF "2.hyps", unfolded Let_def, folded req0_def, folded c1_def]
  show ?case
  proof (cases "settle r")
    case (Inr response)
    then show ?thesis by (simp add: eq)
  next
    case (Inl error)
    show ?thesis
    proof (cases "getProp (getProp error ''response'') ''status'' = JNum (Num 401)
        \<and> \<not> req_retry req0 \<and> truthy (getProp (authTokens c1) ''refreshToken'')")
      case False
      then show ?thesis using Inl by (auto simp: eq)
    next
      case True
      obtain res rs2 c2 where rf: "refreshAccessToken rs c1 = (res, rs2, c2)"
        by (cases "refreshAccessToken rs c1") auto
      from True have c401: "getProp (getProp error ''response'') ''status'' = JNum (Num 401)
          \<and> \<not> req_retry req0" and tr: "truthy (getProp (authTokens c1) ''refreshToken'')"
        by simp_all
      have le2: "length rs2 \<le> length rs"
        using "2.IH"(1) [OF req0_def c1_def Inl c401 tr] rf by simp
      show ?thesis
      proof (cases res)
        case (Inl refreshError)
        then show ?thesis using \<open>settle r = Inl error\<close> True rf le2 by (simp add: eq)
      next
        case (Inr tokens)
        have "length (fst (snd (axios_request (req0\<lparr>req_retry := True\<rparr>) rs2 c2))) \<le> length rs2"
          using "2.IH"(2) [OF req0_def c1_def \<open>settle r = Inl error\<close> c401 tr rf [symmetric] Inr refl]
          by simp
        then show ?thesis using \<open>settle r = Inl error\<close> True rf le2 Inr by (simp add: eq)
      qed
    qed
  qed
next
  case (3 rs c)
  then show ?case
    by (auto simp add: refreshAccessToken.psimps Let_def split: sum.splits prod.splits)
qed

termination axios_request
proof (relation "measure (\<lambda>x. case x of Inl (config, rs, c) \<Rightarrow> 2 * length rs
                                  | Inr (rs, c) \<Rightarrow> 2 * length rs + 1)", goal_cases)
  case 1
  show ?case by simp
next
  case (2 config r rs c x y z)
  then show ?case by simp
next
  case (3 config r rs c x xa a xb y b xaa ya)
  have "length (fst (snd (refreshAccessToken rs xa))) \<le> length rs"
    using request_answers_left(2) 3 by blast
  moreover have "fst (snd (refreshAccessToken rs xa)) = xaa"
    using 3 by (metis fst_conv snd_conv)
  ultimately show ?case by simp
next
  case (4 rs c)
  then show ?case by simp
qed

declare axios_request.simps [simp del] refreshAccessToken.simps [simp del]

text \<open>A request that resolves has used at least one answer of the upstream.\<close>

lemma request_uses_answers:
  "length (fst (snd (axios_request config rs c))) \<le> length rs
   \<and> (\<forall>x. fst (axios_request config rs c) = Inr x
          \<longrightarrow> length (fst (snd (axios_request config rs c))) < length rs)"
  "length (fst (snd (refreshAccessToken rs c))) \<le> length rs"
proof (induction config rs c and rs c rule: axios_request_refreshAccessToken.induct)
  case (1 config c)
  then show ?case by (simp add: axios_request.simps Let_def)
next
  case (2 config r rs c)
  define req0 where "req0 = requestInterceptor c config"
  define c1 where "c1 = c\<lparr>sent := sent c @ [req0]\<rparr>"
  note eq = axios_request.simps(2) [of config r rs c, unfolded Let_def, folded req0_def, folded c1_def]
  show ?case
  proof (cases "settle r")
    case (Inr response)
    then show ?thesis by (simp add: eq)
  next
    case (Inl error)
    show ?thesis
    proof (cases "getProp (getProp error ''response'') ''status'' = JNum (Num 401)
        \<and> \<not> req_retry req0 \<and> truthy (getProp (authTokens c1) ''refreshToken'')")
      case False
      then show ?thesis using Inl by (auto simp: eq)
    next
      case True
      obtain res rs2 c2 where rf: "refreshAccessToken rs c1 = (res, rs2, c2)"
        by (cases "refreshAccessToken rs c1") auto
      from True have c401: "getProp (getProp error ''response'') ''status'' = JNum (Num 401)
          \<and> \<not> req_retry req0" and tr: "truthy (getProp (authTokens c1) ''refreshToken'')"
        by simp_all
      have le2: "length rs2 \<le> length rs"
        using "2.IH"(1) [OF req0_def c1_def Inl c401 tr] rf by simp
      show ?thesis
      proof (cases res)
        case (Inl refreshError)
        then show ?thesis using \<open>settle r = Inl error\<close> True rf le2 by (simp add: eq)
      next
        case (Inr tokens)
        have "length (fst (snd (axios_request (req0\<lparr>req_retry := True\<rparr>) rs2 c2))) \<le> length rs2"
          using "2.IH"(2) [OF req0_def c1_def \<open>settle r = Inl error\<close> c401 tr rf [symmetric] Inr refl]
          by simp
        then show ?thesis using \<open>settle r = Inl error\<close> True rf le2 Inr by (simp add: eq)
      qed
    qed
  qed
next
  case (3 rs c)
  then show ?case
    by (auto simp add: refreshAccessToken.simps Let_def split: sum.splits prod.splits)
qed

lemma request_resolved_shorter:
  assumes "axios_request config rs c = (Inr x, rs', c')"
  shows "length rs' < length rs"
  using request_uses_answers(1) [of config rs c] assms by simp

text \<open>\<open>setAuthToken\<close>, \<open>isAuthenticated\<close> and the client as the constructor leaves it.\<close>

definition setAuthToken :: "string \<Rightarrow> client \<Rightarrow> client" where
  "setAuthToken accessToken c =
     c\<lparr>authTokens := JObj [
        (''accessToken'', JStr accessToken),
        (''refreshToken'', JStr []),
        (''expiresIn'', JNum (Num 86400)),
        (''tokenType'', JStr ''Bearer''),
        (''scope'', JStr ''internal'')]\<rparr>"

definition isAuthenticated :: "client \<Rightarrow> bool" where
  "isAuthenticated c = truthy (getProp (authTokens c) ''accessToken'')"

definition newClient :: "string option \<Rightarrow> string option \<Rightarrow> client" where
  "newClient accessToken clientId =
     (let c = \<lparr> authTokens = JUndefined, config_clientId = clientId, sent = [] \<rparr>
      in case accessToken of
           None \<Rightarrow> c
         | Some t \<Rightarrow> if t = [] then c else setAuthToken t c)"

record RobinhoodCredentials =
  cred_username :: string
  cred_password :: string
  cred_mfaCode :: "string option"
  cred_deviceToken :: "string option"

text \<open>
  \<open>authenticate\<close>.  \<open>generated\<close> is the device token that \<open>generateDeviceToken\<close> draws
  from the random source; it is used when the credentials bring none.  Reading
  \<open>data.mfa_required\<close> throws when the body of the 400 answer is \<open>null\<close>.
\<close>

definition authRequest :: "RobinhoodCredentials \<Rightarrow> string \<Rightarrow> request" where
  "authRequest credentials generated =
     \<lparr> req_method = ''post'',
       req_url = JStr ''/api-token-auth/'',
       req_data = JObj [
         (''username'', JStr (cred_username credentials)),
         (''password'', JStr (cred_password credentials)),
         (''device_token'', JStr (orElse (cred_deviceToken credentials) generated)),
         (''expires_in'', JNum (Num 86400)),
         (''scope'', JStr ''internal''),
         (''challenge_type'', JStr ''sms''),
         (''mfa_code'', (case cred_mfaCode credentials of None \<Rightarrow> JUndefined | Some m \<Rightarrow> JStr m))],
       req_authorization = None,
       req_retry = False \<rparr>"

definition authenticate ::
  "RobinhoodCredentials \<Rightarrow> string \<Rightarrow> upstream_response list \<Rightarrow> client
     \<Rightarrow> (jsval + jsval) \<times> upstream_response list \<times> client" where
  "authenticate credentials generated rs c =
     (case axios_request (authRequest credentials generated) rs c of
        (Inr response, rs', c') \<Rightarrow>
          (Inr (getProp response ''data''), rs', c'\<lparr>authTokens := getProp response ''data''\<rparr>)
      | (Inl error, rs', c') \<Rightarrow>
          if getProp error ''isAxiosError'' = JBool True
             \<and> getProp (getProp error ''response'') ''status'' = JNum (Num 400)
          then
            (let data = getProp (getProp error ''response'') ''data''
             in if data = JNull \<or> data = JUndefined
                then (Inl (mkError ''TypeError'' ''Cannot read properties of null''), rs', c')
                else if truthy (getProp data ''mfa_required'')
                then (Inl (mkError ''Error'' ''MFA_REQUIRED''), rs', c')
                else (Inl error, rs', c'))
          else (Inl error, rs', c'))"

text \<open>\<open>get\<close>: a GET request, resolved to the decoded body.\<close>

definition getRequest :: "jsval \<Rightarrow> request" where
  "getRequest url =
     \<lparr> req_method = ''get'', req_url = url, req_data = JUndefined,
       req_authorization = None, req_retry = False \<rparr>"

definition get :: "jsval \<Rightarrow> upstream_response list \<Rightarrow> client
     \<Rightarrow> (jsval + jsval) \<times> upstream_response list \<times> client" where
  "get url rs c =
     (case axios_request (getRequest url) rs c of
        (Inr response, rs', c') \<Rightarrow> (Inr (getProp response ''data''), rs', c')
      | (Inl error, rs', c') \<Rightarrow> (Inl error, rs', c'))"

lemma get_resolved_shorter:
  assumes "get url rs c = (Inr x, rs', c')"
  shows "length rs' < length rs"
proof -
  obtain res rs1 c1 where a: "axios_request (getRequest url) rs c = (res, rs1, c1)"
    by (cases "axios_request (getRequest url) rs c") auto
  with assms obtain y where "res = Inr y" and "rs1 = rs'"
    by (cases res) (auto simp: get_def)
  with a show ?thesis using request_resolved_shorter by blast
qed

text \<open>
  \<open>paginate\<close>.  The spread \<open>...v\<close> takes the elements of an array and the characters
  of a string, and throws on any other value.  Reading a property of \<open>null\<close> or
  \<open>undefined\<close> throws as well.  \<open>paginate_loop\<close> is the \<open>while (nextUrl)\<close> loop, with
  the results pushed so far.
\<close>

definition spread :: "jsval \<Rightarrow> jsval + jsval list" where
  "spread v =
     (case v of
        JArr xs \<Rightarrow> Inr xs
      | JStr s \<Rightarrow> Inr (map (\<lambda>ch. JStr [ch]) s)
      | _ \<Rightarrow> Inl (mkError ''TypeError'' ''value is not iterable''))"

definition isArray :: "jsval \<Rightarrow> bool" where
  "isArray v = (case v of JArr xs \<Rightarrow> True | _ \<Rightarrow> False)"

definition orNull :: "jsval \<Rightarrow> jsval" where
  "orNull v = (if truthy v then v else JNull)"

function paginate_loop :: "jsval list \<Rightarrow> jsval \<Rightarrow> upstream_response list \<Rightarrow> client
     \<Rightarrow> (jsval + jsval list) \<times> upstream_response list \<times> client" where
  "paginate_loop results nextUrl rs c =
     (if \<not> truthy nextUrl then (Inr results, rs, c)
      else
        (case get nextUrl rs c of
           (Inl error, rs', c') \<Rightarrow> (Inl error, rs', c')
         | (Inr response, rs', c') \<Rightarrow>
             if response = JNull \<or> response = JUndefined
             then (Inl (mkError ''TypeError'' ''Cannot read properties of null''), rs', c')
             else if truthy (getProp response ''results'')
             then
               (case spread (getProp response ''results'') of
                  Inl error \<Rightarrow> (Inl error, rs', c')
                | Inr items \<Rightarrow>
                    paginate_loop (results @ items) (orNull (getProp response ''next'')) rs' c')
             else if isArray response
             then
               (case spread response of
                  Inl error \<Rightarrow> (Inl error, rs', c')
                | Inr items \<Rightarrow>
                    paginate_loop (results @ items) (orNull (getProp response ''next'')) rs' c')
             else paginate_loop (results @ [response]) (orNull (getProp response ''next'')) rs' c'))"
  by pat_completeness auto
termination
proof (relation "measure (\<lambda>(results, nextUrl, rs, c). length rs)", goal_cases)
  case 1
  show ?case by simp
next
  case 2
  then show ?case by (auto dest: get_resolved_shorter [OF sym])
next
  case 3
  then show ?case by (auto dest: get_resolved_shorter [OF sym])
next
  case 4
  then show ?case by (auto dest: get_resolved_shorter [OF sym])
qed

declare paginate_loop.simps [simp del]

definition paginate :: "jsval \<Rightarrow> upstream_response list \<Rightarrow> client
     \<Rightarrow> (jsval + jsval list) \<times> upstream_response list \<times> client" where
  "paginate url rs c = paginate_loop [] url rs c"

section \<open>RobinhoodService\<close>

definition createStandardizedError :: "string \<Rightarrow> string \<Rightarrow> jsval \<Rightarrow> jsval" where
  "createStandardizedError code message details = JObj [
     (''code'', JStr code),
     (''message'', JStr message),
     (''details'', details),
     (''timestamp'', JDate DateNow),
     (''source'', JStr ''robinhood'')]"

text \<open>\<open>RobinhoodService.authenticate\<close>, on the client the service owns.\<close>

definition service_authenticate ::
  "RobinhoodCredentials \<Rightarrow> string \<Rightarrow> upstream_response list \<Rightarrow> client
     \<Rightarrow> (jsval + unit) \<times> upstream_response list \<times> client" where
  "service_authenticate credentials generated rs c =
     (case authenticate credentials generated rs c of
        (Inr tokens, rs', c') \<Rightarrow> (Inr (), rs', c')
      | (Inl error, rs', c') \<Rightarrow>
          if getProp error ''message'' = JStr ''MFA_REQUIRED''
          then (Inl (createStandardizedError ''MFA_REQUIRED''
                       ''Multi-factor authentication required'' JUndefined), rs', c')
          else (Inl (createStandardizedError ''AUTH_FAILED'' ''Authentication failed'' error),
                rs', c'))"

text \<open>
  The raw endpoint accessor, as the service sees it: each call either resolves to a
  decoded upstream record or rejects with an error, and moves the state \<open>'u\<close> of the
  world behind it (the client and the upstream) on.
\<close>

record 'u RobinhoodAPI =
  api_getPositions :: "bool \<Rightarrow> 'u \<Rightarrow> (jsval + RobinhoodPosition list) \<times> 'u"
  api_getInstrumentFromUrl :: "string \<Rightarrow> 'u \<Rightarrow> (jsval + RobinhoodInstrument) \<times> 'u"
  api_getQuote :: "string \<Rightarrow> 'u \<Rightarrow> (jsval + RobinhoodQuote) \<times> 'u"
  api_getOrders :: "'u \<Rightarrow> (jsval + RobinhoodOrder list) \<times> 'u"

text \<open>
  The loop of \<open>getPositions\<close> over the fetched positions: the body of its inner
  \<open>try\<close> pushes the mapped position, and the inner \<open>catch\<close> only logs.
\<close>

fun getPositions_loop ::
  "'u RobinhoodAPI \<Rightarrow> RobinhoodPosition list \<Rightarrow> jsval list \<Rightarrow> 'u \<Rightarrow> jsval list \<times> 'u" where
  "getPositions_loop api [] standardizedPositions u = (standardizedPositions, u)"
| "getPositions_loop api (position # rest) standardizedPositions u =
     (case api_getInstrumentFromUrl api (pos_instrument position) u of
        (Inl error, u1) \<Rightarrow> getPositions_loop api rest standardizedPositions u1
      | (Inr instrument, u1) \<Rightarrow>
          (case api_getQuote api (ins_symbol instrument) u1 of
             (Inl error, u2) \<Rightarrow> getPositions_loop api rest standardizedPositions u2
           | (Inr quote, u2) \<Rightarrow>
               (case mapPosition position (Some instrument) (Some quote) of
                  Inl error \<Rightarrow> getPositions_loop api rest standardizedPositions u2
                | Inr standardized \<Rightarrow>
                    getPositions_loop api rest (standardizedPositions @ [standardized]) u2)))"

definition getPositions :: "'u RobinhoodAPI \<Rightarrow> 'u \<Rightarrow> (jsval + jsval list) \<times> 'u" where
  "getPositions api u =
     (case api_getPositions api True u of
        (Inl error, u') \<Rightarrow>
          (Inl (createStandardizedError ''POSITIONS_FETCH_FAILED'' ''Failed to fetch positions'' error), u')
      | (Inr positions, u') \<Rightarrow>
          (case getPositions_loop api positions [] u' of
             (standardizedPositions, u'') \<Rightarrow> (Inr standardizedPositions, u'')))"

text \<open>
  The loop of \<open>getTransactions\<close> over \<open>orders.slice(0, limit)\<close>: the inner \<open>catch\<close>
  pushes the order mapped without an instrument.
\<close>

fun getTransactions_loop ::
  "'u RobinhoodAPI \<Rightarrow> RobinhoodOrder list \<Rightarrow> jsval list \<Rightarrow> 'u \<Rightarrow> jsval list \<times> 'u" where
  "getTransactions_loop api [] transactions u = (transactions, u)"
| "getTransactions_loop api (order # rest) transactions u =
     (case api_getInstrumentFromUrl api (ord_instrument order) u of
        (Inr instrument, u1) \<Rightarrow>
          getTransactions_loop api rest (transactions @ [mapTransaction order (Some instrument)]) u1
      | (Inl error, u1) \<Rightarrow>
          getTransactions_loop api rest (transactions @ [mapTransaction order None]) u1)"

definition getTransactions :: "'u RobinhoodAPI \<Rightarrow> nat \<Rightarrow> 'u \<Rightarrow> (jsval + jsval list) \<times> 'u" where
  "getTransactions api limit u =
     (case api_getOrders api u of
        (Inl error, u') \<Rightarrow>
          (Inl (createStandardizedError ''TRANSACTIONS_FETCH_FAILED'' ''Failed to fetch transactions'' error), u')
      | (Inr orders, u') \<Rightarrow>
          (case getTransactions_loop api (take limit orders) [] u' of
             (transactions, u'') \<Rightarrow> (Inr transactions, u'')))"

text \<open>The default of the \<open>limit\<close> parameter of \<open>getTransactions\<close>.\<close>

definition defaultLimit :: nat where
  "defaultLimit = 100"

section \<open>Vocabulary of the properties\<close>

text \<open>
  \<open>field r k\<close> reads the field \<open>k\<close> of the object a mapper returned, and is \<open>None\<close>
  when the mapper threw instead.
\<close>

definition field :: "jsval + jsval \<Rightarrow> string \<Rightarrow> jsval option" where
  "field r k = (case r of Inl error \<Rightarrow> None | Inr obj \<Rightarrow> Some (getProp obj k))"










definition isNaN :: "jsval \<Rightarrow> bool" where
  "isNaN v = (v = JNum NaN)"



text \<open>
  The auxiliary lookups of one run of \<open>getPositions\<close>, position by position: the
  instrument and the quote found for it, or \<open>None\<close> when one of the two lookups
  failed.  \<open>instrumentLookups\<close> is the same for the orders of \<open>getTransactions\<close>.
\<close>

fun positionLookups ::
  "'u RobinhoodAPI \<Rightarrow> RobinhoodPosition list \<Rightarrow> 'u
     \<Rightarrow> (RobinhoodInstrument \<times> RobinhoodQuote) option list" where
  "positionLookups api [] u = []"
| "positionLookups api (position # rest) u =
     (case api_getInstrumentFromUrl api (pos_instrument position) u of
        (Inl error, u1) \<Rightarrow> None # positionLookups api rest u1
      | (Inr instrument, u1) \<Rightarrow>
          (case api_getQuote api (ins_symbol instrument) u1 of
             (Inl error, u2) \<Rightarrow> None # positionLookups api rest u2
           | (Inr quote, u2) \<Rightarrow> Some (instrument, quote) # positionLookups api rest u2))"

fun instrumentLookups ::
  "'u RobinhoodAPI \<Rightarrow> RobinhoodOrder list \<Rightarrow> 'u \<Rightarrow> RobinhoodInstrument option list" where
  "instrumentLookups api [] u = []"
| "instrumentLookups api (order # rest) u =
     (case api_getInstrumentFromUrl api (ord_instrument order) u of
        (Inl error, u1) \<Rightarrow> None # instrumentLookups api rest u1
      | (Inr instrument, u1) \<Rightarrow> Some instrument # instrumentLookups api rest u1)"

text \<open>
  The positions that a run enriched, with what was found for each, in upstream order.
\<close>

fun enriched ::
  "RobinhoodPosition list \<Rightarrow> (RobinhoodInstrument \<times> RobinhoodQuote) option list
     \<Rightarrow> (RobinhoodPosition \<times> RobinhoodInstrument \<times> RobinhoodQuote) list" where
  "enriched (p # ps) (Some (i, q) # ls) = (p, i, q) # enriched ps ls"
| "enriched (p # ps) (None # ls) = enriched ps ls"
| "enriched _ _ = []"

section \<open>Fixtures of the test suite\<close>

text \<open>
  The records that the repository's tests map (\<open>mockPosition\<close>, \<open>mockInstrument\<close>,
  \<open>mockQuote\<close>, \<open>mockOrder\<close>, \<open>mockDividend\<close>), with the fields of the model above.
\<close>

definition mockPosition :: RobinhoodPosition where
  "mockPosition =
     \<lparr> pos_url = ''https://api.robinhood.com/positions/TEST123456/INST123/'',
       pos_instrument = ''https://api.robinhood.com/instruments/INST123/'',
       pos_averageBuyPrice = Some ''150.00'',
       pos_quantity = Some ''10.0000'',
       pos_updatedAt = ''2024-01-01T00:00:00Z'' \<rparr>"

definition mockInstrument :: RobinhoodInstrument where
  "mockInstrument =
     \<lparr> ins_id = ''INST123'',
       ins_url = ''https://api.robinhood.com/instruments/INST123/'',
       ins_market = ''NASDAQ'',
       ins_name = ''Apple Inc.'',
       ins_symbol = ''AAPL'',
       ins_type = ''stock'' \<rparr>"

definition mockQuote :: RobinhoodQuote where
  "mockQuote =
     \<lparr> q_askPrice = Some ''175.50'',
       q_askSize = Num 100,
       q_bidPrice = Some ''175.00'',
       q_bidSize = Num 200,
       q_lastTradePrice = Some ''175.25'',
       q_previousClose = Some ''174.00'',
       q_symbol = ''AAPL'',
       q_tradingHalted = False,
       q_updatedAt = ''2024-01-02T15:00:00Z'' \<rparr>"

text \<open>
  \<open>mockOrder\<close> has no \<open>created\<close> field in the tests (it has \<open>createdAt\<close>); the
  string passed to \<open>new Date\<close> stands for the missing value.
\<close>

definition mockOrder :: RobinhoodOrder where
  "mockOrder =
     \<lparr> ord_id = ''ORDER123'',
       ord_url = ''https://api.robinhood.com/orders/ORDER123/'',
       ord_instrument = ''https://api.robinhood.com/instruments/INST123/'',
       ord_averagePrice = Some ''150.00'',
       ord_fees = Some ''0.00'',
       ord_state = ''filled'',
       ord_side = ''buy'',
       ord_price = None,
       ord_quantity = Some ''10.0000'',
       ord_created = ''undefined'' \<rparr>"

definition mockDividend :: RobinhoodDividend where
  "mockDividend =
     \<lparr> div_id = ''DIV123'',
       div_instrument = ''https://api.robinhood.com/instruments/INST123/'',
       div_amount = Some ''5.00'',
       div_withholding = Some ''0.00'',
       div_recordDate = ''2024-01-01'',
       div_payableDate = ''2024-01-15'',
       div_state = ''paid'' \<rparr>"

text \<open>The dividend of the test \<open>should calculate net amount correctly with withholding\<close>.\<close>

definition dividendWithTax :: RobinhoodDividend where
  "dividendWithTax = mockDividend\<lparr>div_withholding := Some ''1.00''\<rparr>"


text \<open>
  The accessor of the test \<open>should respect transaction limit\<close>: twenty orders are
  fetched, and every instrument lookup succeeds.
\<close>

definition twentyOrdersApi :: "unit RobinhoodAPI" where
  "twentyOrdersApi =
     \<lparr> api_getPositions = (\<lambda>nonzero u. (Inr [], u)),
       api_getInstrumentFromUrl = (\<lambda>url u. (Inr mockInstrument, u)),
       api_getQuote = (\<lambda>symbol u. (Inr mockQuote, u)),
       api_getOrders = (\<lambda>u. (Inr (replicate 20 mockOrder), u)) \<rparr>"

text \<open>
  The accessor of the tests on lookup failures, with the number of instrument lookups
  made so far as its state: two positions and two orders are fetched, the first
  instrument lookup succeeds and every later one fails.
\<close>

definition secondLookupFailsApi :: "nat RobinhoodAPI" where
  "secondLookupFailsApi =
     \<lparr> api_getPositions = (\<lambda>nonzero u. (Inr [mockPosition, mockPosition], u)),
       api_getInstrumentFromUrl =
         (\<lambda>url u. if u = 0 then (Inr mockInstrument, Suc u)
                   else (Inl (mkError ''Error'' ''Instrument not found''), Suc u)),
       api_getQuote = (\<lambda>symbol u. (Inr mockQuote, u)),
       api_getOrders = (\<lambda>u. (Inr [mockOrder, mockOrder], u)) \<rparr>"

text \<open>
  Pages of a paginated collection: an envelope is a body whose \<open>results\<close> is a sequence.
  In a chain of pages every page but the last has a \<open>next\<close> link, and the last has none.
\<close>

definition isEnvelope :: "jsval \<Rightarrow> bool" where
  "isEnvelope body = (case getProp body ''results'' of JArr items \<Rightarrow> True | _ \<Rightarrow> False)"

definition resultsOf :: "jsval \<Rightarrow> jsval list" where
  "resultsOf body = (case getProp body ''results'' of JArr items \<Rightarrow> items | _ \<Rightarrow> [])"

definition nextOf :: "jsval \<Rightarrow> jsval" where
  "nextOf body = getProp body ''next''"

fun pageChain :: "jsval list \<Rightarrow> bool" where
  "pageChain [] = False"
| "pageChain [page] = (isEnvelope page \<and> \<not> truthy (nextOf page))"
| "pageChain (page # following # pages) =
     (isEnvelope page \<and> truthy (nextOf page) \<and> pageChain (following # pages))"

text \<open>The GET requests among the requests sent, and the token refresh requests.\<close>

definition getRequests :: "client \<Rightarrow> request list" where
  "getRequests c = filter (\<lambda>r. req_method r = ''get'') (sent c)"

definition refreshRequests :: "client \<Rightarrow> request list" where
  "refreshRequests c = filter (\<lambda>r. req_url r = JStr ''/oauth/token/'') (sent c)"

text \<open>
  A client that holds a token set, two pages of a collection, and a single object that
  has a \<open>next\<close> property.
\<close>

definition tokenClient :: client where
  "tokenClient =
     (newClient None None)\<lparr>authTokens := JObj [
        (''accessToken'', JStr ''access-1''),
        (''refreshToken'', JStr ''refresh-1''),
        (''expiresIn'', JNum (Num 86400)),
        (''tokenType'', JStr ''Bearer''),
        (''scope'', JStr ''internal'')]\<rparr>"

definition newTokens :: jsval where
  "newTokens = JObj [
     (''accessToken'', JStr ''access-2''),
     (''refreshToken'', JStr ''refresh-2''),
     (''expiresIn'', JNum (Num 86400)),
     (''tokenType'', JStr ''Bearer''),
     (''scope'', JStr ''internal'')]"

definition firstPage :: jsval where
  "firstPage = JObj [
     (''results'', JArr [JStr ''a'', JStr ''b'']),
     (''next'', JStr ''/positions/?cursor=2'')]"

definition lastPage :: jsval where
  "lastPage = JObj [(''results'', JArr [JStr ''c'']), (''next'', JNull)]"

definition objectWithNext :: jsval where
  "objectWithNext = JObj [(''name'', JStr ''Default''), (''next'', JStr ''/watchlists/?cursor=2'')]"

definition mockCredentials :: RobinhoodCredentials where
  "mockCredentials =
     \<lparr> cred_username = ''testuser@example.com'',
       cred_password = ''testpassword123'',
       cred_mfaCode = None,
       cred_deviceToken = Some ''mock-device-token-1234567890'' \<rparr>"

section \<open>Parsing decimals\<close>

lemmas parse_eval =
  parseFloat_def parseUnsigned_def isDigit_def digitValue_def isWhiteSpace_def
  exponentPart_def scale10_def orElse_def













lemma parseFloat_zero: "parseFloat ''0'' = Num 0"
  by (simp add: parse_eval)


section \<open>Properties of the mapper\<close>

lemma getProp_avoids:
  assumes "v \<notin> snd ` set kvs" and "v \<noteq> JUndefined"
  shows "getProp (JObj kvs) k \<noteq> v"
proof (cases "map_of kvs k")
  case None
  with assms(2) show ?thesis by simp
next
  case (Some w)
  then have "(k, w) \<in> set kvs" by (rule map_of_SomeD)
  then have "w \<in> snd ` set kvs" by force
  with assms(1) have "w \<noteq> v" by auto
  with Some show ?thesis by simp
qed






text \<open>
  Without a quote, the prices and the values that \<open>mapPosition\<close> derives from them
  are \<open>0\<close>.
\<close>

lemma absent_quote_gives_zero_prices:
  "field (mapPosition position (Some instrument) None) ''currentPrice'' = Some (JNum (Num 0))
   \<and> field (mapPosition position (Some instrument) None) ''dayChange''
       = Some (JNum (jmul (Num 0) (parseFloat (orElse (pos_quantity position) ''0''))))
   \<and> field (mapPosition position (Some instrument) None) ''dayChangePercent'' = Some (JNum (Num 0))"
  by (simp add: mapPosition_def field_def quoteField_def Let_def neq0_def parseFloat_zero orElse_def)

text \<open>
  Claim C7, on the code.  The claim says that a mapping without the related instrument
  yields the symbol \<open>UNKNOWN\<close> and the name \<open>Unknown Instrument\<close> or \<open>Unknown\<close> and
  never throws, as the repository's tests expect.  The code has no such sentinel:
  without an instrument, \<open>mapTransaction\<close> leaves symbol and name \<open>undefined\<close>,
  \<open>mapDividend\<close> gives the empty symbol and no name, \<open>mapQuote\<close> leaves the name
  \<open>undefined\<close>, and \<open>mapPosition\<close> throws.
\<close>

theorem missing_instrument_gives_no_sentinel:
  "getProp (mapTransaction order None) ''symbol'' = JUndefined
   \<and> getProp (mapTransaction order None) ''name'' = JUndefined
   \<and> getProp (mapDividend dividend None) ''symbol'' = JStr []
   \<and> getProp (mapDividend dividend None) ''name'' = JUndefined
   \<and> getProp (mapQuote quote None) ''name'' = JUndefined
   \<and> mapPosition position None quote'
       = Inl (mkError ''TypeError'' ''Cannot read properties of undefined'')"
  by (simp add: mapTransaction_def mapDividend_def mapQuote_def mapPosition_def
      instrumentField_def Let_def)

text \<open>
  Claim C8, on the code.  The claim says that the mapped dividend carries a net amount,
  the gross amount less the withholding, as the test \<open>should calculate net amount
  correctly with withholding\<close> expects (\<open>netAmount = 4\<close> for an amount of \<open>5.00\<close> and a
  withholding of \<open>1.00\<close>).  \<open>mapDividend\<close> computes no difference: the mapped dividend
  has no \<open>netAmount\<close>, its amount is the gross \<open>5\<close>, the withholding \<open>1\<close> is kept in
  the metadata, and no field holds \<open>4\<close>.
\<close>

theorem mapDividend_has_no_net_amount:
  "\<not> has_key (mapDividend dividendWithTax instrument) ''netAmount''
   \<and> getProp (mapDividend dividendWithTax instrument) ''amount'' = JNum (Num 5)
   \<and> getProp (getProp (mapDividend dividendWithTax instrument) ''metadata'') ''withholding''
       = JNum (Num 1)
   \<and> (\<forall>k. getProp (mapDividend dividendWithTax instrument) k \<noteq> JNum (Num 4))
   \<and> (\<forall>k. getProp (getProp (mapDividend dividendWithTax instrument) ''metadata'') k
          \<noteq> JNum (Num 4))"
proof -
  have am: "parseFloatOpt (div_amount dividendWithTax) = Num 5"
    by (simp add: dividendWithTax_def mockDividend_def parseFloatOpt_def parse_eval)
  have wh: "parseFloat (orElse (div_withholding dividendWithTax) ''0'') = Num 1"
    by (simp add: dividendWithTax_def mockDividend_def parse_eval)
  have top: "\<And>k. getProp (mapDividend dividendWithTax instrument) k \<noteq> JNum (Num 4)"
  proof -
    fix k
    obtain kvs where m: "mapDividend dividendWithTax instrument = JObj kvs"
      and v: "JNum (Num 4) \<notin> snd ` set kvs"
      by (simp add: mapDividend_def am)
    show "getProp (mapDividend dividendWithTax instrument) k \<noteq> JNum (Num 4)"
      using getProp_avoids [OF v, of k] by (simp add: m)
  qed
  have meta: "\<And>k. getProp (getProp (mapDividend dividendWithTax instrument) ''metadata'') k
      \<noteq> JNum (Num 4)"
  proof -
    fix k
    obtain kvs where m: "getProp (mapDividend dividendWithTax instrument) ''metadata'' = JObj kvs"
      and v: "JNum (Num 4) \<notin> snd ` set kvs"
      by (simp add: mapDividend_def wh)
    show "getProp (getProp (mapDividend dividendWithTax instrument) ''metadata'') k \<noteq> JNum (Num 4)"
      using getProp_avoids [OF v, of k] by (simp add: m)
  qed
  have "\<not> has_key (mapDividend dividendWithTax instrument) ''netAmount''
   \<and> getProp (mapDividend dividendWithTax instrument) ''amount'' = JNum (Num 5)
   \<and> getProp (getProp (mapDividend dividendWithTax instrument) ''metadata'') ''withholding''
       = JNum (Num 1)"
    by (simp add: mapDividend_def am wh)
  with top meta show ?thesis by blast
qed



text \<open>
  Claim C10.  Whatever the account, the upstream portfolio and the positions it
  aggregates, the portfolio returned by \<open>mapPortfolio\<close> has \<open>totalGainLoss = 0\<close> and
  \<open>totalGainLossPercent = 0\<close>: the gain or loss of a portfolio is never computed.
\<close>

theorem mapPortfolio_gain_loss_zero:
  "getProp (mapPortfolio account portfolio positions) ''totalGainLoss'' = JNum (Num 0)
   \<and> getProp (mapPortfolio account portfolio positions) ''totalGainLossPercent'' = JNum (Num 0)"
  by (simp add: mapPortfolio_def Let_def)

section \<open>Properties of the service\<close>

lemma mapPosition_returns:
  "\<exists>standardized. mapPosition position (Some instrument) quote = Inr standardized"
  by (simp add: mapPosition_def Let_def)

lemma getPositions_loop_pushes:
  "map Inr (fst (getPositions_loop api ps acc u))
     = map Inr acc @ map (\<lambda>(p, i, q). mapPosition p (Some i) (Some q))
                        (enriched ps (positionLookups api ps u))"
proof (induction ps arbitrary: acc u)
  case Nil
  show ?case by simp
next
  case (Cons p ps)
  obtain r1 u1 where l1: "api_getInstrumentFromUrl api (pos_instrument p) u = (r1, u1)"
    by (cases "api_getInstrumentFromUrl api (pos_instrument p) u") auto
  show ?case
  proof (cases r1)
    case (Inl error)
    with l1 Cons.IH [of acc u1] show ?thesis by simp
  next
    case (Inr i)
    obtain r2 u2 where l2: "api_getQuote api (ins_symbol i) u1 = (r2, u2)"
      by (cases "api_getQuote api (ins_symbol i) u1") auto
    show ?thesis
    proof (cases r2)
      case (Inl error)
      with l1 l2 \<open>r1 = Inr i\<close> Cons.IH [of acc u2] show ?thesis by simp
    next
      case (Inr q)
      obtain s where s: "mapPosition p (Some i) (Some q) = Inr s"
        using mapPosition_returns by blast
      with l1 l2 \<open>r1 = Inr i\<close> Inr Cons.IH [of "acc @ [s]" u2] show ?thesis by simp
    qed
  qed
qed

lemma positionLookups_length: "length (positionLookups api ps u) = length ps"
  by (induction ps arbitrary: u) (auto split: prod.splits sum.splits)

lemma enriched_length:
  "length ls = length ps \<Longrightarrow>
     length (enriched ps ls) + length (filter (\<lambda>l. l = None) ls) = length ps"
  by (induction ps ls rule: enriched.induct) simp_all

lemma instrumentLookups_length: "length (instrumentLookups api os u) = length os"
  by (induction os arbitrary: u) (auto split: prod.splits sum.splits)

lemma getTransactions_loop_pushes:
  "fst (getTransactions_loop api os acc u)
     = acc @ map2 mapTransaction os (instrumentLookups api os u)"
proof (induction os arbitrary: acc u)
  case Nil
  show ?case by simp
next
  case (Cons order os)
  obtain r1 u1 where l1: "api_getInstrumentFromUrl api (ord_instrument order) u = (r1, u1)"
    by (cases "api_getInstrumentFromUrl api (ord_instrument order) u") auto
  show ?case
  proof (cases r1)
    case (Inl error)
    with l1 Cons.IH [of "acc @ [mapTransaction order None]" u1] show ?thesis by simp
  next
    case (Inr i)
    with l1 Cons.IH [of "acc @ [mapTransaction order (Some i)]" u1] show ?thesis by simp
  qed
qed

lemma getTransactions_length:
  assumes "api_getOrders api u = (Inr orders, u1)"
  shows "map_sum id length (fst (getTransactions api limit u)) = Inr (min limit (length orders))"
  using assms getTransactions_loop_pushes [of api "take limit orders" "[]" u1]
  by (auto simp: getTransactions_def instrumentLookups_length min.commute split: prod.splits)

text \<open>
  Claim C6, as the code has it.  The claim says that \<open>getTransactions\<close> returns all
  \<open>n\<close> transactions of the \<open>n\<close> orders fetched.  It maps the first \<open>limit\<close> orders only
  (\<open>orders.slice(0, limit)\<close>, with a default of 100): in the test \<open>should respect
  transaction limit\<close>, twenty orders are fetched and five transactions returned.
\<close>

theorem getTransactions_respects_limit:
  "map_sum id length (fst (getTransactions twentyOrdersApi 5 ())) = Inr 5"
proof -
  have "api_getOrders twentyOrdersApi () = (Inr (replicate 20 mockOrder), ())"
    by (simp add: twentyOrdersApi_def)
  from getTransactions_length [OF this, of 5] show ?thesis by simp
qed

text \<open>
  Claim C6, amended.  When the positions are fetched, \<open>getPositions\<close> returns exactly the
  positions whose instrument and quote lookups both succeeded, mapped with what was
  found and in upstream order: \<open>n - k\<close> of them when \<open>k\<close> of the \<open>n\<close> lookups failed.
  When the orders are fetched, \<open>getTransactions\<close> returns one transaction for each of the
  first \<open>limit\<close> orders, in upstream order, mapped with the instrument found or without
  one when its lookup failed: \<open>min limit n\<close> of them, hence all \<open>n\<close> when \<open>n \<le> limit\<close>.
\<close>

theorem partial_failure_tolerance:
  assumes "api_getPositions api True u = (Inr positions, u1)"
    and "api_getOrders api v = (Inr orders, v1)"
  shows "(\<exists>standardized.
            fst (getPositions api u) = Inr standardized
          \<and> map Inr standardized
              = map (\<lambda>(p, i, q). mapPosition p (Some i) (Some q))
                  (enriched positions (positionLookups api positions u1))
          \<and> length standardized
              + length (filter (\<lambda>l. l = None) (positionLookups api positions u1))
              = length positions)
       \<and> fst (getTransactions api limit v)
           = Inr (map2 mapTransaction (take limit orders)
                    (instrumentLookups api (take limit orders) v1))
       \<and> map_sum id length (fst (getTransactions api limit v)) = Inr (min limit (length orders))
       \<and> (length orders \<le> limit \<longrightarrow>
            fst (getTransactions api limit v)
              = Inr (map2 mapTransaction orders (instrumentLookups api orders v1)))"
proof -
  obtain standardized u2 where lp: "getPositions_loop api positions [] u1 = (standardized, u2)"
    by (cases "getPositions_loop api positions [] u1") auto
  have gp: "fst (getPositions api u) = Inr standardized"
    using assms(1) lp by (simp add: getPositions_def)
  have eq: "map Inr standardized
      = map (\<lambda>(p, i, q). mapPosition p (Some i) (Some q))
          (enriched positions (positionLookups api positions u1))"
    using getPositions_loop_pushes [of api positions "[]" u1] lp by simp
  have "length standardized = length (enriched positions (positionLookups api positions u1))"
    using arg_cong [OF eq, of length] by simp
  then have len: "length standardized
      + length (filter (\<lambda>l. l = None) (positionLookups api positions u1)) = length positions"
    using enriched_length [of "positionLookups api positions u1" positions]
    by (simp add: positionLookups_length)
  have gt: "fst (getTransactions api limit v)
      = Inr (map2 mapTransaction (take limit orders) (instrumentLookups api (take limit orders) v1))"
    using assms(2) getTransactions_loop_pushes [of api "take limit orders" "[]" v1]
    by (auto simp: getTransactions_def split: prod.splits)
  have all: "length orders \<le> limit \<longrightarrow>
      fst (getTransactions api limit v)
        = Inr (map2 mapTransaction orders (instrumentLookups api orders v1))"
    using gt by simp
  from gp eq len gt all getTransactions_length [OF assms(2), of limit] show ?thesis by blast
qed

theorem partial_failure_tolerance_witness:
  "map_sum id length (fst (getPositions secondLookupFailsApi 0)) = Inr 1
   \<and> fst (getTransactions secondLookupFailsApi 10 0)
       = Inr [mapTransaction mockOrder (Some mockInstrument), mapTransaction mockOrder None]"
proof -
  have p: "api_getPositions secondLookupFailsApi True 0 = (Inr [mockPosition, mockPosition], 0)"
    by (simp add: secondLookupFailsApi_def)
  have o: "api_getOrders secondLookupFailsApi 0 = (Inr [mockOrder, mockOrder], 0)"
    by (simp add: secondLookupFailsApi_def)
  have lk: "positionLookups secondLookupFailsApi [mockPosition, mockPosition] 0
      = [Some (mockInstrument, mockQuote), None]"
    by (simp add: secondLookupFailsApi_def)
  have il: "instrumentLookups secondLookupFailsApi [mockOrder, mockOrder] 0
      = [Some mockInstrument, None]"
    by (simp add: secondLookupFailsApi_def)
  note t = partial_failure_tolerance [OF p o, of 10, unfolded lk il]
  from t obtain standardized where
    g: "fst (getPositions secondLookupFailsApi 0) = Inr standardized"
    and n: "length standardized + length (filter (\<lambda>l. l = None) [Some (mockInstrument, mockQuote), None])
             = length [mockPosition, mockPosition]"
    by blast
  from n have "length standardized = 1" by simp
  with g have 1: "map_sum id length (fst (getPositions secondLookupFailsApi 0)) = Inr 1"
    by simp
  from t have "length [mockOrder, mockOrder] \<le> (10::nat) \<longrightarrow>
      fst (getTransactions secondLookupFailsApi 10 0)
        = Inr (map2 mapTransaction [mockOrder, mockOrder] [Some mockInstrument, None])"
    by blast
  then have 2: "fst (getTransactions secondLookupFailsApi 10 0)
       = Inr [mapTransaction mockOrder (Some mockInstrument), mapTransaction mockOrder None]"
    by simp
  from 1 2 show ?thesis ..
qed

section \<open>Properties of the client\<close>

lemma requestInterceptor_sent [simp]:
  "requestInterceptor (c\<lparr>sent := s\<rparr>) config = requestInterceptor c config"
  by (simp add: requestInterceptor_def)

lemma requestInterceptor_retry [simp]:
  "req_retry (requestInterceptor c config) = req_retry config"
  by (simp add: requestInterceptor_def)

lemma settle_ok:
  "settle (Response 200 body) = Inr (JObj [(''data'', body), (''status'', JNum (Num 200))])"
  by (simp add: settle_def)

lemma axios_request_ok:
  "axios_request config (Response 200 body # rs) c
     = (Inr (JObj [(''data'', body), (''status'', JNum (Num 200))]), rs,
        c\<lparr>sent := sent c @ [requestInterceptor c config]\<rparr>)"
  by (simp add: axios_request.simps settle_ok Let_def)

lemma get_ok:
  "get url (Response 200 body # rs) c
     = (Inr body, rs, c\<lparr>sent := sent c @ [requestInterceptor c (getRequest url)]\<rparr>)"
  by (simp add: get_def axios_request_ok)

lemma paginate_loop_done:
  "\<not> truthy nextUrl \<Longrightarrow> paginate_loop results nextUrl rs c = (Inr results, rs, c)"
  by (simp add: paginate_loop.simps)

lemma isEnvelope_results:
  assumes "isEnvelope page"
  shows "getProp page ''results'' = JArr (resultsOf page)"
    and "page \<noteq> JNull" and "page \<noteq> JUndefined"
  using assms by (auto simp: isEnvelope_def resultsOf_def split: jsval.splits)

lemma paginate_loop_envelope:
  assumes "truthy url" and "isEnvelope page"
  shows "paginate_loop results url (Response 200 page # rs) c
     = paginate_loop (results @ resultsOf page) (orNull (nextOf page)) rs
         (c\<lparr>sent := sent c @ [requestInterceptor c (getRequest url)]\<rparr>)"
  using assms(1) isEnvelope_results [OF assms(2)]
  by (subst paginate_loop.simps) (simp add: get_ok spread_def nextOf_def)

lemma paginate_loop_chain:
  assumes "pageChain pages" and "truthy url"
  shows "paginate_loop results url (map (Response 200) pages @ rest) c
     = (Inr (results @ concat (map resultsOf pages)), rest,
        c\<lparr>sent := sent c @ map (\<lambda>u. requestInterceptor c (getRequest u))
                              (url # map nextOf (butlast pages))\<rparr>)"
  using assms
proof (induction pages arbitrary: results url c rule: pageChain.induct)
  case 1
  then show ?case by simp
next
  case (2 page)
  then show ?case
    by (simp add: paginate_loop_envelope orNull_def paginate_loop_done)
next
  case (3 page following pages)
  from "3.prems" have e: "isEnvelope page" and n: "truthy (nextOf page)"
    and ch: "pageChain (following # pages)"
    by simp_all
  have "paginate_loop results url (map (Response 200) (page # following # pages) @ rest) c
      = paginate_loop (results @ resultsOf page) (nextOf page)
          (map (Response 200) (following # pages) @ rest)
          (c\<lparr>sent := sent c @ [requestInterceptor c (getRequest url)]\<rparr>)"
    using paginate_loop_envelope [OF "3.prems"(2) e] n by (simp add: orNull_def)
  also have "\<dots> = (Inr ((results @ resultsOf page) @ concat (map resultsOf (following # pages))), rest,
        (c\<lparr>sent := sent c @ [requestInterceptor c (getRequest url)]\<rparr>)
          \<lparr>sent := sent (c\<lparr>sent := sent c @ [requestInterceptor c (getRequest url)]\<rparr>)
              @ map (\<lambda>u. requestInterceptor (c\<lparr>sent := sent c @ [requestInterceptor c (getRequest url)]\<rparr>) (getRequest u))
                  (nextOf page # map nextOf (butlast (following # pages)))\<rparr>)"
    by (rule "3.IH" [OF ch n])
  finally show ?case by simp
qed

text \<open>
  Claim C2, as the code has it.  The claim says that a single object, with no \<open>results\<close>
  and not a sequence, is returned as a one-element sequence.  \<open>paginate\<close> reads the
  \<open>next\<close> property of whatever body it got: a single object that has one is pushed, and
  the loop goes on with a second request, whose body is pushed after it.
\<close>

theorem single_object_with_next_is_followed:
  "paginate (JStr ''/watchlists/'')
     [Response 200 objectWithNext, Response 200 (JArr [JStr ''x''])] tokenClient
   = (Inr [objectWithNext, JStr ''x''], [],
      tokenClient\<lparr>sent :=
        [requestInterceptor tokenClient (getRequest (JStr ''/watchlists/'')),
         requestInterceptor tokenClient (getRequest (JStr ''/watchlists/?cursor=2''))]\<rparr>)"
proof -
  have s: "sent tokenClient = []"
    by (simp add: tokenClient_def newClient_def)
  show ?thesis
    by (simp add: paginate_def paginate_loop.simps [of _ _ "_ # _"] paginate_loop_done get_ok
        objectWithNext_def isArray_def spread_def orNull_def s)
qed

text \<open>
  Claim C2, amended.  For a chain of \<open>N\<close> pages, each answered in turn, \<open>paginate\<close>
  returns the results of the pages in upstream order, \<open>s1 + ... + sN\<close> elements, with
  exactly \<open>N\<close> GET requests: the given URL and then the \<open>next\<close> link of each page but
  the last.  For a body that is a sequence it returns that sequence with one request.
  For a single object that has no \<open>results\<close> and no \<open>next\<close> link it returns the
  one-element sequence of that object, with one request.
\<close>

theorem paginate_flattens_pages:
  assumes "truthy url"
  shows "(pageChain pages \<longrightarrow>
            paginate url (map (Response 200) pages @ rest) c
              = (Inr (concat (map resultsOf pages)), rest,
                 c\<lparr>sent := sent c @ map (\<lambda>u. requestInterceptor c (getRequest u))
                                       (url # map nextOf (butlast pages))\<rparr>)
          \<and> length (concat (map resultsOf pages)) = sum_list (map (\<lambda>p. length (resultsOf p)) pages)
          \<and> length (url # map nextOf (butlast pages)) = length pages)
       \<and> paginate url (Response 200 (JArr items) # rest) c
           = (Inr items, rest, c\<lparr>sent := sent c @ [requestInterceptor c (getRequest url)]\<rparr>)
       \<and> (\<not> truthy (getProp (JObj kvs) ''results'') \<and> \<not> truthy (getProp (JObj kvs) ''next'') \<longrightarrow>
            paginate url (Response 200 (JObj kvs) # rest) c
              = (Inr [JObj kvs], rest, c\<lparr>sent := sent c @ [requestInterceptor c (getRequest url)]\<rparr>))"
proof -
  have chain: "pageChain pages \<longrightarrow>
            paginate url (map (Response 200) pages @ rest) c
              = (Inr (concat (map resultsOf pages)), rest,
                 c\<lparr>sent := sent c @ map (\<lambda>u. requestInterceptor c (getRequest u))
                                       (url # map nextOf (butlast pages))\<rparr>)"
    using paginate_loop_chain [OF _ assms, of pages "[]" rest c] by (simp add: paginate_def)
  have len: "length (concat (map resultsOf pages)) = sum_list (map (\<lambda>p. length (resultsOf p)) pages)"
    by (simp add: length_concat comp_def)
  have n: "pageChain pages \<longrightarrow> length (url # map nextOf (butlast pages)) = length pages"
    by (cases pages) auto
  have arr: "paginate url (Response 200 (JArr items) # rest) c
           = (Inr items, rest, c\<lparr>sent := sent c @ [requestInterceptor c (getRequest url)]\<rparr>)"
    using assms
    by (simp add: paginate_def paginate_loop.simps [of _ _ "_ # _"] paginate_loop_done get_ok
        isArray_def spread_def orNull_def)
  have single: "\<not> truthy (getProp (JObj kvs) ''results'') \<and> \<not> truthy (getProp (JObj kvs) ''next'') \<longrightarrow>
            paginate url (Response 200 (JObj kvs) # rest) c
              = (Inr [JObj kvs], rest, c\<lparr>sent := sent c @ [requestInterceptor c (getRequest url)]\<rparr>)"
    using assms
    by (simp add: paginate_def paginate_loop.simps [of _ _ "_ # _"] paginate_loop_done get_ok
        isArray_def orNull_def)
  from chain len n arr single show ?thesis by blast
qed

theorem paginate_flattens_pages_witness:
  "paginate (JStr ''/positions/'') [Response 200 firstPage, Response 200 lastPage, NoResponse] tokenClient
     = (Inr [JStr ''a'', JStr ''b'', JStr ''c''], [NoResponse],
        tokenClient\<lparr>sent :=
          [requestInterceptor tokenClient (getRequest (JStr ''/positions/'')),
           requestInterceptor tokenClient (getRequest (JStr ''/positions/?cursor=2''))]\<rparr>)
   \<and> paginate (JStr ''/markets/'') [Response 200 (JArr [JStr ''x'', JStr ''y''])] tokenClient
     = (Inr [JStr ''x'', JStr ''y''], [],
        tokenClient\<lparr>sent := [requestInterceptor tokenClient (getRequest (JStr ''/markets/''))]\<rparr>)
   \<and> paginate (JStr ''/user/'') [Response 200 (JObj [(''name'', JStr ''Default'')])] tokenClient
     = (Inr [JObj [(''name'', JStr ''Default'')]], [],
        tokenClient\<lparr>sent := [requestInterceptor tokenClient (getRequest (JStr ''/user/''))]\<rparr>)"
proof -
  have ch: "pageChain [firstPage, lastPage]"
    by (simp add: firstPage_def lastPage_def isEnvelope_def nextOf_def)
  have s: "sent tokenClient = []"
    by (simp add: tokenClient_def newClient_def)
  have r: "resultsOf firstPage = [JStr ''a'', JStr ''b'']" "resultsOf lastPage = [JStr ''c'']"
    "nextOf firstPage = JStr ''/positions/?cursor=2''"
    by (simp_all add: firstPage_def lastPage_def resultsOf_def nextOf_def)
  have u: "truthy (JStr ''/positions/'')" "truthy (JStr ''/markets/'')" "truthy (JStr ''/user/'')"
    by simp_all
  from paginate_flattens_pages [OF u(1), where pages = "[firstPage, lastPage]"
      and rest = "[NoResponse]" and c = tokenClient] ch
  have 1: "paginate (JStr ''/positions/'') [Response 200 firstPage, Response 200 lastPage, NoResponse] tokenClient
     = (Inr [JStr ''a'', JStr ''b'', JStr ''c''], [NoResponse],
        tokenClient\<lparr>sent :=
          [requestInterceptor tokenClient (getRequest (JStr ''/positions/'')),
           requestInterceptor tokenClient (getRequest (JStr ''/positions/?cursor=2''))]\<rparr>)"
    by (simp add: r s)
  from paginate_flattens_pages [OF u(2), where c = tokenClient
      and items = "[JStr ''x'', JStr ''y'']" and rest = "[]"]
  have 2: "paginate (JStr ''/markets/'') [Response 200 (JArr [JStr ''x'', JStr ''y''])] tokenClient
     = (Inr [JStr ''x'', JStr ''y''], [],
        tokenClient\<lparr>sent := [requestInterceptor tokenClient (getRequest (JStr ''/markets/''))]\<rparr>)"
    by (simp add: s)
  from paginate_flattens_pages [OF u(3), where c = tokenClient
      and rest = "[]" and kvs = "[(''name'', JStr ''Default'')]"]
  have 3: "paginate (JStr ''/user/'') [Response 200 (JObj [(''name'', JStr ''Default'')])] tokenClient
     = (Inr [JObj [(''name'', JStr ''Default'')]], [],
        tokenClient\<lparr>sent := [requestInterceptor tokenClient (getRequest (JStr ''/user/''))]\<rparr>)"
    by (simp add: s)
  from 1 2 3 show ?thesis by blast
qed

text \<open>
  The response interceptor, case by case.  An error other than a 401 answer, and a 401
  answer to a request already marked as a retry, are surfaced at once, with no refresh.
\<close>

lemma settle_failure:
  assumes "\<not> (200 \<le> status \<and> status < 300)"
  shows "settle (Response status body)
     = Inl (axiosError ''Request failed with status code'' (Some (status, body)))"
  using assms by (simp add: settle_def)

lemma axiosError_status:
  "getProp (getProp (axiosError msg (Some (status, body))) ''response'') ''status''
     = JNum (Num (of_nat status))"
  "getProp (getProp (axiosError msg (Some (status, body))) ''response'') ''data'' = body"
  "getProp (getProp (axiosError msg None) ''response'') ''status'' = JUndefined"
  "getProp (axiosError msg resp) ''isAxiosError'' = JBool True"
  "getProp (axiosError msg resp) ''message'' = JStr msg"
  by (simp_all add: axiosError_def split: option.splits)

lemma other_error_propagates:
  assumes "\<not> (200 \<le> status \<and> status < 300)" and "status \<noteq> 401"
  shows "axios_request config (Response status body # rs) c
     = (Inl (axiosError ''Request failed with status code'' (Some (status, body))), rs,
        c\<lparr>sent := sent c @ [requestInterceptor c config]\<rparr>)"
proof -
  have "(of_nat status :: rat) \<noteq> 401"
    using assms(2) by (metis of_nat_eq_iff of_nat_numeral)
  then show ?thesis
    by (simp add: axios_request.simps settle_failure [OF assms(1)] axiosError_status Let_def)
qed

lemma no_answer_propagates:
  "axios_request config (NoResponse # rs) c
     = (Inl (axiosError ''Network Error'' None), rs,
        c\<lparr>sent := sent c @ [requestInterceptor c config]\<rparr>)"
  by (simp add: axios_request.simps settle_def axiosError_status Let_def)

lemma marked_retry_is_surfaced:
  assumes "req_retry config"
  shows "axios_request config (Response 401 body # rs) c
     = (Inl (axiosError ''Request failed with status code'' (Some (401, body))), rs,
        c\<lparr>sent := sent c @ [requestInterceptor c config]\<rparr>)"
  using assms by (simp add: axios_request.simps settle_failure Let_def)

lemma no_refresh_token_is_surfaced:
  assumes "\<not> truthy (getProp (authTokens c) ''refreshToken'')"
  shows "axios_request config (Response 401 body # rs) c
     = (Inl (axiosError ''Request failed with status code'' (Some (401, body))), rs,
        c\<lparr>sent := sent c @ [requestInterceptor c config]\<rparr>)"
  using assms by (simp add: axios_request.simps settle_failure Let_def)

text \<open>
  A first 401 answer with a refresh token held: when the refresh request is answered
  with new tokens, they are stored and the original request is sent once more, marked
  as a retry, with the new access token; when it is answered with an error other than
  401, the token set is discarded and that error is surfaced.
\<close>

lemma refresh_then_retry:
  assumes "\<not> req_retry config" and "truthy (getProp (authTokens c) ''refreshToken'')"
  shows "axios_request config (Response 401 body # Response 200 tokens # rs) c
     = axios_request ((requestInterceptor c config)\<lparr>req_retry := True\<rparr>) rs
         (c\<lparr>sent := sent c @ [requestInterceptor c config, requestInterceptor c (refreshRequest c)],
            authTokens := tokens\<rparr>)"
  using assms
  by (simp add: axios_request.simps(2) [of config] refreshAccessToken.simps settle_failure
      axiosError_status Let_def axios_request_ok refreshRequest_def requestInterceptor_def)

lemma failed_refresh_discards_tokens:
  assumes "\<not> req_retry config" and "truthy (getProp (authTokens c) ''refreshToken'')"
    and "\<not> (200 \<le> status \<and> status < 300)" and "status \<noteq> 401"
  shows "axios_request config (Response 401 body # Response status body' # rs) c
     = (Inl (axiosError ''Request failed with status code'' (Some (status, body'))), rs,
        c\<lparr>sent := sent c @ [requestInterceptor c config, requestInterceptor c (refreshRequest c)],
          authTokens := JUndefined\<rparr>)"
  using assms
  by (simp add: axios_request.simps(2) [of config] refreshAccessToken.simps settle_failure
      axiosError_status Let_def other_error_propagates refreshRequest_def requestInterceptor_def)

text \<open>
  The recursion has no bound of its own.  Against an upstream that answers 401 to the
  refresh request \<open>n\<close> times and then no more, \<open>refreshAccessToken\<close> sends \<open>n + 1\<close>
  refresh requests before it gives up.
\<close>

lemma refreshRequest_sent [simp]:
  "refreshRequest (c\<lparr>sent := s\<rparr>) = refreshRequest c"
  by (simp add: refreshRequest_def)

lemma refresh_attempts_unbounded:
  assumes "truthy (getProp (authTokens c) ''refreshToken'')"
  shows "refreshAccessToken (replicate n (Response 401 body)) c
     = (Inl (axiosError ''Network Error'' None), [],
        c\<lparr>sent := sent c @ replicate (Suc n) (requestInterceptor c (refreshRequest c)),
          authTokens := (if n = 0 then authTokens c else JUndefined)\<rparr>)"
  using assms
proof (induction n arbitrary: c)
  case 0
  then show ?case
    by (simp add: refreshAccessToken.simps axios_request.simps Let_def)
next
  case (Suc n)
  let ?c1 = "c\<lparr>sent := sent c @ [requestInterceptor c (refreshRequest c)]\<rparr>"
  have t1: "truthy (getProp (authTokens ?c1) ''refreshToken'')"
    using Suc.prems by simp
  have nr: "\<not> req_retry (refreshRequest c)"
    by (simp add: refreshRequest_def)
  note ih = Suc.IH [OF t1]
  have "axios_request (refreshRequest c) (Response 401 body # replicate n (Response 401 body)) c
      = (Inl (axiosError ''Network Error'' None), [],
         c\<lparr>sent := sent c @ replicate (Suc (Suc n)) (requestInterceptor c (refreshRequest c)),
           authTokens := JUndefined\<rparr>)"
    using Suc.prems nr
    by (simp add: axios_request.simps(2) settle_failure axiosError_status Let_def ih
        replicate_append_same)
  then show ?case
    using Suc.prems by (simp add: refreshAccessToken.simps [of "_ # _"])
qed

text \<open>
  Claim C1, on the code.  The claim says that a request answered 401 leads to exactly
  one token refresh attempt, and that a failed refresh is surfaced.  The refresh
  request goes through the same response interceptor, as a request that is not marked
  as a retry: when it is answered 401 itself, the interceptor starts another refresh,
  and so on for as long as the upstream answers 401.  Here one GET answered 401 is
  followed by three refresh requests, answered 401, 401 and 400; only then the token set
  is discarded and the last error surfaced.
\<close>

theorem refresh_answered_401_is_refreshed_again:
  "fst (get (JStr ''/accounts/'')
          [Response 401 JNull, Response 401 JNull, Response 401 JNull, Response 400 JNull]
          tokenClient)
     = Inl (axiosError ''Request failed with status code'' (Some (400, JNull)))
   \<and> length (refreshRequests (snd (snd (get (JStr ''/accounts/'')
          [Response 401 JNull, Response 401 JNull, Response 401 JNull, Response 400 JNull]
          tokenClient)))) = 3
   \<and> length (sent (snd (snd (get (JStr ''/accounts/'')
          [Response 401 JNull, Response 401 JNull, Response 401 JNull, Response 400 JNull]
          tokenClient)))) = 4
   \<and> \<not> isAuthenticated (snd (snd (get (JStr ''/accounts/'')
          [Response 401 JNull, Response 401 JNull, Response 401 JNull, Response 400 JNull]
          tokenClient)))"
proof -
  have t: "truthy (getProp (authTokens tokenClient) ''refreshToken'')"
    "truthy (getProp (authTokens tokenClient) ''accessToken'')"
    by (simp_all add: tokenClient_def)
  have s: "sent tokenClient = []"
    by (simp add: tokenClient_def newClient_def)
  have "get (JStr ''/accounts/'')
          [Response 401 JNull, Response 401 JNull, Response 401 JNull, Response 400 JNull]
          tokenClient
     = (Inl (axiosError ''Request failed with status code'' (Some (400, JNull))), [],
        tokenClient\<lparr>sent :=
          [requestInterceptor tokenClient (getRequest (JStr ''/accounts/'')),
           requestInterceptor tokenClient (refreshRequest tokenClient),
           requestInterceptor tokenClient (refreshRequest tokenClient),
           requestInterceptor tokenClient (refreshRequest tokenClient)],
          authTokens := JUndefined\<rparr>)"
    using t
    by (simp add: get_def axios_request.simps(2) refreshAccessToken.simps settle_failure
        axiosError_status Let_def getRequest_def refreshRequest_def requestInterceptor_def s)
  then show ?thesis
    using t by (simp add: refreshRequests_def isAuthenticated_def refreshRequest_def
        requestInterceptor_def getRequest_def)
qed

lemma isAuthenticated_sent [simp]:
  "isAuthenticated (c\<lparr>sent := s\<rparr>) = isAuthenticated c"
  by (simp add: isAuthenticated_def)

lemma settle_success:
  assumes "200 \<le> status \<and> status < 300"
  shows "settle (Response status body)
     = Inr (JObj [(''data'', body), (''status'', JNum (Num (of_nat status)))])"
  using assms by (simp add: settle_def)

lemma authenticate_success:
  assumes "200 \<le> status \<and> status < 300"
  shows "authenticate credentials generated (Response status tokens # rs) c
     = (Inr tokens, rs,
        c\<lparr>sent := sent c @ [requestInterceptor c (authRequest credentials generated)],
          authTokens := tokens\<rparr>)"
  by (simp add: authenticate_def axios_request.simps settle_success [OF assms] Let_def)

lemma authenticate_mfa_required:
  assumes "truthy (getProp body ''mfa_required'')"
  shows "authenticate credentials generated (Response 400 body # rs) c
     = (Inl (mkError ''Error'' ''MFA_REQUIRED''), rs,
        c\<lparr>sent := sent c @ [requestInterceptor c (authRequest credentials generated)]\<rparr>)"
proof -
  from assms have "body \<noteq> JNull" and "body \<noteq> JUndefined" by auto
  with assms show ?thesis
    by (simp add: authenticate_def other_error_propagates axiosError_status Let_def)
qed

lemma authenticate_other_400:
  assumes "\<not> truthy (getProp body ''mfa_required'')" and "body \<noteq> JNull" and "body \<noteq> JUndefined"
  shows "authenticate credentials generated (Response 400 body # rs) c
     = (Inl (axiosError ''Request failed with status code'' (Some (400, body))), rs,
        c\<lparr>sent := sent c @ [requestInterceptor c (authRequest credentials generated)]\<rparr>)"
  using assms
  by (simp add: authenticate_def other_error_propagates axiosError_status Let_def)

text \<open>
  Claim C5.  When the upstream answers the authentication request with a success status
  and a token set, \<open>authenticate\<close> stores that token set, and \<open>isAuthenticated\<close> is true
  from then on (the token set carrying an access token).  When it answers 400 with a
  body that signals \<open>mfa_required\<close>, the client fails with the error \<open>MFA_REQUIRED\<close>, the
  service surfaces the code \<open>MFA_REQUIRED\<close>, the stored tokens are untouched, and
  \<open>isAuthenticated\<close> stays false.  Another 400 answer is surfaced as \<open>AUTH_FAILED\<close>.
\<close>

theorem authenticate_success_or_mfa_required:
  assumes "200 \<le> status \<and> status < 300"
    and "truthy (getProp tokens ''accessToken'')"
    and "truthy (getProp mfaBody ''mfa_required'')"
    and "\<not> truthy (getProp otherBody ''mfa_required'')"
    and "otherBody \<noteq> JNull \<and> otherBody \<noteq> JUndefined"
    and "\<not> isAuthenticated c"
  shows "service_authenticate credentials generated (Response status tokens # rs) c
           = (Inr (), rs,
              c\<lparr>sent := sent c @ [requestInterceptor c (authRequest credentials generated)],
                authTokens := tokens\<rparr>)
       \<and> isAuthenticated
            (c\<lparr>sent := sent c @ [requestInterceptor c (authRequest credentials generated)],
              authTokens := tokens\<rparr>)
       \<and> authenticate credentials generated (Response 400 mfaBody # rs) c
           = (Inl (mkError ''Error'' ''MFA_REQUIRED''), rs,
              c\<lparr>sent := sent c @ [requestInterceptor c (authRequest credentials generated)]\<rparr>)
       \<and> service_authenticate credentials generated (Response 400 mfaBody # rs) c
           = (Inl (createStandardizedError ''MFA_REQUIRED''
                     ''Multi-factor authentication required'' JUndefined), rs,
              c\<lparr>sent := sent c @ [requestInterceptor c (authRequest credentials generated)]\<rparr>)
       \<and> \<not> isAuthenticated
            (c\<lparr>sent := sent c @ [requestInterceptor c (authRequest credentials generated)]\<rparr>)
       \<and> service_authenticate credentials generated (Response 400 otherBody # rs) c
           = (Inl (createStandardizedError ''AUTH_FAILED'' ''Authentication failed''
                     (axiosError ''Request failed with status code'' (Some (400, otherBody)))), rs,
              c\<lparr>sent := sent c @ [requestInterceptor c (authRequest credentials generated)]\<rparr>)"
proof -
  have 1: "service_authenticate credentials generated (Response status tokens # rs) c
           = (Inr (), rs,
              c\<lparr>sent := sent c @ [requestInterceptor c (authRequest credentials generated)],
                authTokens := tokens\<rparr>)"
    by (simp add: service_authenticate_def authenticate_success [OF assms(1)])
  have 2: "isAuthenticated
            (c\<lparr>sent := sent c @ [requestInterceptor c (authRequest credentials generated)],
              authTokens := tokens\<rparr>)"
    using assms(2) by (simp add: isAuthenticated_def)
  note 3 = authenticate_mfa_required [OF assms(3), of credentials generated rs c]
  have 4: "service_authenticate credentials generated (Response 400 mfaBody # rs) c
           = (Inl (createStandardizedError ''MFA_REQUIRED''
                     ''Multi-factor authentication required'' JUndefined), rs,
              c\<lparr>sent := sent c @ [requestInterceptor c (authRequest credentials generated)]\<rparr>)"
    by (simp add: service_authenticate_def 3 mkError_def)
  have 5: "\<not> isAuthenticated
            (c\<lparr>sent := sent c @ [requestInterceptor c (authRequest credentials generated)]\<rparr>)"
    using assms(6) by simp
  have 6: "service_authenticate credentials generated (Response 400 otherBody # rs) c
           = (Inl (createStandardizedError ''AUTH_FAILED'' ''Authentication failed''
                     (axiosError ''Request failed with status code'' (Some (400, otherBody)))), rs,
              c\<lparr>sent := sent c @ [requestInterceptor c (authRequest credentials generated)]\<rparr>)"
    using assms(4,5)
    by (simp add: service_authenticate_def authenticate_other_400 axiosError_status)
  from 1 2 3 4 5 6 show ?thesis by blast
qed

theorem authenticate_success_or_mfa_required_witness:
  "fst (service_authenticate mockCredentials [] [Response 200 newTokens] (newClient None None))
     = Inr ()
   \<and> isAuthenticated (snd (snd (service_authenticate mockCredentials []
        [Response 200 newTokens] (newClient None None))))
   \<and> getProp (projl (fst (service_authenticate mockCredentials []
        [Response 400 (JObj [(''mfa_required'', JBool True)])] (newClient None None)))) ''code''
     = JStr ''MFA_REQUIRED''
   \<and> \<not> isAuthenticated (snd (snd (service_authenticate mockCredentials []
        [Response 400 (JObj [(''mfa_required'', JBool True)])] (newClient None None))))
   \<and> getProp (projl (fst (service_authenticate mockCredentials []
        [Response 400 (JObj [(''detail'', JStr ''Invalid credentials'')])] (newClient None None)))) ''code''
     = JStr ''AUTH_FAILED''"
proof -
  have a: "200 \<le> (200::nat) \<and> (200::nat) < 300" by simp
  have b: "truthy (getProp newTokens ''accessToken'')" by (simp add: newTokens_def)
  have c: "truthy (getProp (JObj [(''mfa_required'', JBool True)]) ''mfa_required'')" by simp
  have d: "\<not> truthy (getProp (JObj [(''detail'', JStr ''Invalid credentials'')]) ''mfa_required'')"
    by simp
  have e: "JObj [(''detail'', JStr ''Invalid credentials'')] \<noteq> JNull
      \<and> JObj [(''detail'', JStr ''Invalid credentials'')] \<noteq> JUndefined" by simp
  have f: "\<not> isAuthenticated (newClient None None)"
    by (simp add: isAuthenticated_def newClient_def)
  from authenticate_success_or_mfa_required [OF a b c d e f, of mockCredentials "[]" "[]"]
  show ?thesis
    by (simp add: createStandardizedError_def)
qed

end
